theory Spec2Isabelle
  imports Main "HOL-Library.Sublist"
begin

section \<open>The database readiness check (scripts/check-db.js)\<close>

text \<open>
  The script is a linear sequence: an environment check, then, for each of the two
  connection strings, connect, version gate, legacy-schema guard and the delegated
  migration command. Everything it does to the outside world (console lines, database
  calls, the child process, the process exit) is recorded here as a list of events, in
  the order the script performs them. What the outside world answers (the content of
  \<open>process.env\<close>, what the database returns or throws, what the child process prints)
  is an input of the model.
\<close>

subsection \<open>JavaScript values and strings\<close>

text \<open>
  A value that is either a string or \<open>undefined\<close> (a property of \<open>process.env\<close>, a
  column of a result row) is a \<open>string option\<close>, \<open>None\<close> being \<open>undefined\<close>. Such a
  value is falsy when it is \<open>undefined\<close> or the empty string.
\<close>

definition truthy :: "string option \<Rightarrow> bool" where
  "truthy v = (case v of None \<Rightarrow> False | Some s \<Rightarrow> s \<noteq> [])"

text \<open>What a template literal prints for such a value.\<close>

definition template :: "string option \<Rightarrow> string" where
  "template v = (case v of None \<Rightarrow> ''undefined'' | Some s \<Rightarrow> s)"

text \<open>
  \<open>String.prototype.split\<close> with a one-character separator: the pieces between the
  separators, in order; the empty string gives one empty piece.
\<close>

fun str_split :: "char \<Rightarrow> string \<Rightarrow> string list" where
  "str_split sep [] = [[]]"
| "str_split sep (c # cs) =
     (if c = sep then [] # str_split sep cs
      else (case str_split sep cs of
              [] \<Rightarrow> [[c]]
            | w # ws \<Rightarrow> (c # w) # ws))"

text \<open>Reading index 0 of an array: \<open>undefined\<close> when the array is empty.\<close>

definition first_elem :: "'a list \<Rightarrow> 'a option" where
  "first_elem xs = (case xs of [] \<Rightarrow> None | x # _ \<Rightarrow> Some x)"

subsection \<open>getDatabaseType\<close>

text \<open>
  \<^verbatim>\<open>const type = url && url.split(':')[0];\<close>
  \<^verbatim>\<open>if (type === 'postgres') return 'postgresql';\<close>
  \<^verbatim>\<open>return type;\<close>
  A falsy \<open>url\<close> (\<open>undefined\<close> or the empty string) is what \<open>&&\<close> returns as it is.
\<close>

definition getDatabaseType :: "string option \<Rightarrow> string option" where
  "getDatabaseType url =
     (let type = (case url of
                    None \<Rightarrow> None
                  | Some u \<Rightarrow> if u = [] then Some u else first_elem (str_split (CHR '':'') u))
      in if type = Some ''postgres'' then Some ''postgresql'' else type)"

text \<open>The scheme of a URL, as the specification words it: the part before the first colon.\<close>

definition scheme :: "string \<Rightarrow> string" where
  "scheme url = takeWhile (\<lambda>c. c \<noteq> CHR '':'') url"

subsection \<open>The semver package\<close>

text \<open>
  Modelled from the spec: the functions \<open>coerce\<close>, \<open>valid\<close> and \<open>lt\<close> of the
  \<open>semver\<close> package, a dependency whose code is not under \<open>src/\<close>. The
  specification says that the raw string is coerced to a normalized semantic version
  unless none can be extracted, and that versions are compared by major, minor and
  patch. How a version is extracted follows the coercion pattern of semver 7. A
  version is kept in parsed form, as its three numbers; \<open>coerce\<close> called without
  options never yields a prerelease or build part. The properties below use
  \<open>coerce\<close> only through its result; the examples run it on plain version strings.
\<close>

record semver =
  major :: nat
  minor :: nat
  patch :: nat

definition is_digit :: "char \<Rightarrow> bool" where
  "is_digit c = (c \<in> set ''0123456789'')"

definition digit_value :: "char \<Rightarrow> nat" where
  "digit_value c = of_char c - 48"

definition nat_of_digits :: "string \<Rightarrow> nat" where
  "nat_of_digits ds = foldl (\<lambda>n c. 10 * n + digit_value c) 0 ds"

definition MAX_SAFE_INTEGER :: nat where
  "MAX_SAFE_INTEGER = 9007199254740991"

definition MAX_SAFE_COMPONENT_LENGTH :: nat where
  "MAX_SAFE_COMPONENT_LENGTH = 16"

text \<open>
  A numeric identifier of a strict version, \<^verbatim>\<open>0|[1-9]\d*\<close>: digits with no leading
  zero, and a value of at most \<open>MAX_SAFE_INTEGER\<close> (the constructor throws otherwise,
  and \<open>parse\<close> turns the exception into \<open>null\<close>).
\<close>

definition numeric_identifier :: "string \<Rightarrow> nat option" where
  "numeric_identifier ds =
     (if ds = [] \<or> \<not> list_all is_digit ds then None
      else if 1 < length ds \<and> hd ds = CHR ''0'' then None
      else if MAX_SAFE_INTEGER < nat_of_digits ds then None
      else Some (nat_of_digits ds))"

text \<open>
  The optional group \<^verbatim>\<open>(?:\.(\d{1,16}))?\<close> of the coercion pattern, tried at the start
  of \<open>t\<close>: a dot and a run of one to sixteen digits. A longer run cannot be cut short,
  since the pattern must go on with a dot, a non-digit or the end of the string.
\<close>

definition dot_digits :: "string \<Rightarrow> string option" where
  "dot_digits t =
     (case t of
        [] \<Rightarrow> None
      | c # u \<Rightarrow>
          if c = CHR ''.'' then
            (let run = takeWhile is_digit u
             in if 1 \<le> length run \<and> length run \<le> MAX_SAFE_COMPONENT_LENGTH
                then Some run else None)
          else None)"

text \<open>
  The leftmost match of
  \<^verbatim>\<open>(^|[^\d])(\d{1,16})(?:\.(\d{1,16}))?(?:\.(\d{1,16}))?(?:$|[^\d])\<close>:
  its groups 2, 3 and 4. The argument is what is left of the string at a place where
  a match may start (the start of the string, or just after a non-digit). A run of more
  than sixteen digits holds no match; the search goes on after it.
\<close>

function coerce_match :: "string \<Rightarrow> (string \<times> string option \<times> string option) option" where
  "coerce_match [] = None"
| "coerce_match (c # cs) =
     (if is_digit c then
        (if MAX_SAFE_COMPONENT_LENGTH < length (takeWhile is_digit (c # cs))
         then coerce_match (dropWhile is_digit cs)
         else (let run = takeWhile is_digit (c # cs);
                   rest = dropWhile is_digit (c # cs)
               in case dot_digits rest of
                    None \<Rightarrow> Some (run, None, None)
                  | Some mi \<Rightarrow> Some (run, Some mi, dot_digits (drop (1 + length mi) rest))))
      else coerce_match cs)"
  by pat_completeness auto
termination
  by (relation "measure length") (auto simp: le_imp_less_Suc length_dropWhile_le)

text \<open>
  \<open>semver.coerce\<close>: a value that is not a string gives \<open>null\<close>; so does a string with
  no match. Otherwise the version \<open>major.minor.patch\<close> is parsed strictly, a missing
  minor or patch being \<open>0\<close>.
\<close>

definition or_zero :: "string option \<Rightarrow> string" where
  "or_zero g = (case g of None \<Rightarrow> ''0'' | Some ds \<Rightarrow> ds)"

definition semver_coerce :: "string option \<Rightarrow> semver option" where
  "semver_coerce version =
     (case version of
        None \<Rightarrow> None
      | Some s \<Rightarrow>
          (case coerce_match s of
             None \<Rightarrow> None
           | Some (ma, mi, pa) \<Rightarrow>
               (case (numeric_identifier ma, numeric_identifier (or_zero mi),
                      numeric_identifier (or_zero pa)) of
                  (Some x, Some y, Some z) \<Rightarrow> Some \<lparr>major = x, minor = y, patch = z\<rparr>
                | _ \<Rightarrow> None)))"

text \<open>
  \<open>semver.valid\<close> of what \<open>coerce\<close> returned: a version object yields its version
  string, \<open>null\<close> yields \<open>null\<close>. With versions kept in parsed form it changes nothing.
\<close>

definition semver_valid :: "semver option \<Rightarrow> semver option" where
  "semver_valid v = v"

text \<open>
  \<open>semver.lt\<close> is \<open>compare(a, b) < 0\<close>, and \<open>compare\<close> takes the first non-zero
  among the comparisons of major, minor and patch.
\<close>

definition compareIdentifiers :: "nat \<Rightarrow> nat \<Rightarrow> int" where
  "compareIdentifiers a b = (if a = b then 0 else if a < b then - 1 else 1)"

definition semver_compare :: "semver \<Rightarrow> semver \<Rightarrow> int" where
  "semver_compare a b =
     (if compareIdentifiers (major a) (major b) \<noteq> 0
        then compareIdentifiers (major a) (major b)
      else if compareIdentifiers (minor a) (minor b) \<noteq> 0
        then compareIdentifiers (minor a) (minor b)
      else compareIdentifiers (patch a) (patch b))"

definition semver_lt :: "semver \<Rightarrow> semver \<Rightarrow> bool" where
  "semver_lt a b = (semver_compare a b < 0)"

text \<open>The version string \<open>major.minor.patch\<close>, as a template literal prints it.\<close>

fun string_of_nat :: "nat \<Rightarrow> string" where
  "string_of_nat n =
     (if n < 10 then [''0123456789'' ! n]
      else string_of_nat (n div 10) @ [''0123456789'' ! (n mod 10)])"

declare string_of_nat.simps [simp del]

definition version_string :: "semver \<Rightarrow> string" where
  "version_string v =
     string_of_nat (major v) @ ''.'' @ string_of_nat (minor v) @ ''.'' @ string_of_nat (patch v)"

subsection \<open>Effects and the outside world\<close>

text \<open>
  One event per effect, in program order. A console line keeps the chalk colour it is
  printed in; a database call keeps the URL the client was built for.
\<close>

datatype colour = plain | greenBright | redBright | blueBright

datatype event =
    ConsoleLog colour string
  | Connect "string option"
  | QueryRaw "string option" string
  | ExecSync string
  | Disconnect "string option"
  | ProcessExit nat

text \<open>A call either throws an \<open>Error\<close> with a message or returns a value.\<close>

datatype 'a outcome = Throws string | Returns 'a

text \<open>
  What the outside world answers during one call of \<open>performChecks\<close>: to
  \<open>$connect\<close>, to the version query (the \<open>version\<close> property of each row, \<open>None\<close>
  where a row has none), to the migrations query (one entry per row) and to the child
  process (its output, or the exception of \<open>execSync\<close>). Building the client and
  \<open>$disconnect\<close> are taken to return normally.
\<close>

record responses =
  connect_reply :: "unit outcome"
  version_reply :: "string option list outcome"
  migrations_reply :: "string list outcome"
  deploy_reply :: "string outcome"

type_synonym env = "string \<Rightarrow> string option"

definition DATABASE_URLS :: "string list" where
  "DATABASE_URLS = [''DATABASE_URL'', ''DIRECT_DATABASE_URL'']"

text \<open>The check mark U+2713 and the ballot cross U+2717, as UTF-8 bytes.\<close>

definition check_mark :: string where
  "check_mark = [CHR 0xE2, CHR 0x9C, CHR 0x93]"

definition cross_mark :: string where
  "cross_mark = [CHR 0xE2, CHR 0x9C, CHR 0x97]"

definition success :: "string \<Rightarrow> event" where
  "success msg = ConsoleLog greenBright (check_mark @ '' '' @ msg)"

definition error :: "string \<Rightarrow> event" where
  "error msg = ConsoleLog redBright (cross_mark @ '' '' @ msg)"

subsection \<open>checkEnv\<close>

text \<open>
  The \<open>forEach\<close> over \<open>DATABASE_URLS\<close>, with the flag \<open>allDefined\<close> and the lines
  printed so far as its state.
\<close>

fun checkEnv_forEach :: "env \<Rightarrow> string list \<Rightarrow> bool \<times> event list \<Rightarrow> bool \<times> event list" where
  "checkEnv_forEach env [] st = st"
| "checkEnv_forEach env (envVar # rest) (allDefined, t) =
     (if \<not> truthy (env envVar)
      then checkEnv_forEach env rest (False, t @ [error (envVar @ '' is not defined.'')])
      else checkEnv_forEach env rest (allDefined, t @ [success (envVar @ '' is defined.'')]))"

definition checkEnv :: "env \<Rightarrow> unit outcome \<times> event list" where
  "checkEnv env =
     (case checkEnv_forEach env DATABASE_URLS (True, []) of
        (allDefined, t) \<Rightarrow>
          if \<not> allDefined
          then (Throws ''One or more required database environment variables are missing.'', t)
          else (Returns (), t))"

subsection \<open>performChecks\<close>

definition bracket :: "string \<Rightarrow> string" where
  "bracket label = ''['' @ label @ ''] ''"

definition version_sql :: string where
  "version_sql = ''SELECT version()''"

definition migrations_sql :: string where
  "migrations_sql =
     ''SELECT * FROM _prisma_migrations WHERE started_at < '' @ [CHR 0x27] @ ''2023-04-17'' @ [CHR 0x27]"

definition migrate_command :: string where
  "migrate_command = ''npx prisma migrate deploy''"

text \<open>The \<open>TypeError\<close> of reading \<open>.version\<close> of \<open>undefined\<close>, when the query returns no row.\<close>

definition type_error_version :: string where
  "type_error_version =
     ''Cannot read properties of undefined (reading '' @ [CHR 0x27] @ ''version'' @ [CHR 0x27] @ '')''"

definition min_postgresql :: semver where
  "min_postgresql = \<lparr>major = 9, minor = 4, patch = 0\<rparr>"

definition min_other :: semver where
  "min_other = \<lparr>major = 5, minor = 7, patch = 0\<rparr>"

text \<open>
  The body of the \<open>try\<close> block: its outcome and the events up to the point where it
  ends or throws.
\<close>

definition performChecks_try :: "responses \<Rightarrow> string option \<Rightarrow> string \<Rightarrow> unit outcome \<times> event list" where
  "performChecks_try w dbUrl label =
     (case connect_reply w of
        Throws e \<Rightarrow> (Throws e, [Connect dbUrl])
      | Returns _ \<Rightarrow>
         (let t1 = [Connect dbUrl,
                    success (bracket label @ ''Database connection successful.''),
                    QueryRaw dbUrl version_sql]
          in case version_reply w of
               Throws e \<Rightarrow> (Throws e, t1)
             | Returns queryResult \<Rightarrow>
                (case first_elem queryResult of
                   None \<Rightarrow> (Throws type_error_version, t1)
                 | Some versionString \<Rightarrow>
                    (let version = semver_valid (semver_coerce versionString);
                         databaseType = getDatabaseType dbUrl;
                         minVersion = (if databaseType = Some ''postgresql''
                                       then min_postgresql else min_other)
                     in case version of
                          None \<Rightarrow>
                            (Throws (bracket label @ ''Unable to parse database version.''), t1)
                        | Some v \<Rightarrow>
                            if semver_lt v minVersion
                            then (Throws (bracket label
                                    @ ''Database version is not compatible. Please upgrade ''
                                    @ template databaseType @ '' to version ''
                                    @ version_string minVersion @ '' or greater.''), t1)
                            else
                             (let t2 = t1 @
                                    [success (bracket label @ ''Database version (''
                                       @ version_string v @ '') is compatible.''),
                                     QueryRaw dbUrl migrations_sql]
                              in case migrations_reply w of
                                   Throws e \<Rightarrow> (Throws e, t2)
                                 | Returns migrations \<Rightarrow>
                                     if 0 < length migrations
                                     then (Throws (bracket label @ ''Umami v1 tables detected.''),
                                           t2 @ [error (bracket label
                                             @ ''Umami v1 tables detected. To upgrade from v1 to v2, visit https://umami.is/docs/migrate-v1-v2.'')])
                                     else
                                      (let t3 = t2 @
                                             [success (bracket label @ ''No Umami v1 tables detected.''),
                                              ExecSync migrate_command]
                                       in case deploy_reply w of
                                            Throws e \<Rightarrow> (Throws e, t3)
                                          | Returns out \<Rightarrow>
                                              (Returns (),
                                               t3 @ [ConsoleLog plain out,
                                                     success (bracket label
                                                       @ ''Database is up to date.'')])))))))"

text \<open>
  \<open>catch\<close> rethrows with the label in front of the message; \<open>finally\<close> disconnects,
  whatever the outcome.
\<close>

definition performChecks :: "responses \<Rightarrow> string option \<Rightarrow> string \<Rightarrow> unit outcome \<times> event list" where
  "performChecks w dbUrl label =
     (case performChecks_try w dbUrl label of
        (r, t) \<Rightarrow>
          ((case r of Throws e \<Rightarrow> Throws (bracket label @ e) | Returns u \<Rightarrow> Returns u),
           t @ [Disconnect dbUrl]))"

subsection \<open>The script\<close>

text \<open>
  The \<open>for ... of\<close> loop over \<open>DATABASE_URLS\<close>: each variable is checked with the
  answers the outside world gives for it; an exception leaves the loop.
\<close>

fun check_each :: "env \<Rightarrow> (string \<Rightarrow> responses) \<Rightarrow> string list \<Rightarrow> unit outcome \<times> event list" where
  "check_each env world [] = (Returns (), [])"
| "check_each env world (envVar # rest) =
     (case performChecks (world envVar) (env envVar) envVar of
        (Throws e, t) \<Rightarrow> (Throws e, t)
      | (Returns _, t) \<Rightarrow>
          (case check_each env world rest of (r, t') \<Rightarrow> (r, t @ t')))"

text \<open>
  The whole script, from the \<open>SKIP_DB_CHECK\<close> guard to \<open>process.exit\<close>. \<open>env\<close> is
  \<open>process.env\<close> once \<open>dotenv\<close> has loaded; \<open>world\<close> gives, for each variable name, the
  answers of the outside world while that variable's URL is checked.
\<close>

definition main :: "env \<Rightarrow> (string \<Rightarrow> responses) \<Rightarrow> event list" where
  "main env world =
     (if truthy (env ''SKIP_DB_CHECK'')
      then [ConsoleLog plain ''Skipping database check.'', ProcessExit 0]
      else
        (case checkEnv env of
           (Throws e, t) \<Rightarrow> t @ [error e, ProcessExit 1]
         | (Returns _, t) \<Rightarrow>
             (case check_each env world DATABASE_URLS of
                (Throws e, t') \<Rightarrow> t @ t' @ [error e, ProcessExit 1]
              | (Returns _, t') \<Rightarrow>
                  t @ t' @ [ConsoleLog blueBright ''All database checks passed successfully.'',
                            ProcessExit 0])))"

subsection \<open>Observations on a run\<close>

definition exit_code :: "event list \<Rightarrow> nat option" where
  "exit_code t = (case rev t of ProcessExit c # _ \<Rightarrow> Some c | _ \<Rightarrow> None)"

fun is_connect :: "event \<Rightarrow> bool" where
  "is_connect (Connect u) = True"
| "is_connect e = False"

fun is_exec :: "event \<Rightarrow> bool" where
  "is_exec (ExecSync c) = True"
| "is_exec e = False"

text \<open>
  What a call of \<open>performChecks\<close> may do between connecting and disconnecting: print
  a line, query the client of its own URL, run the migration command.
\<close>

fun body_event :: "string option \<Rightarrow> event \<Rightarrow> bool" where
  "body_event u (ConsoleLog k m) = True"
| "body_event u (QueryRaw u' q) = (u' = u)"
| "body_event u (ExecSync c) = (c = migrate_command)"
| "body_event u e = False"

text \<open>
  Connections are scoped in a run when no client is connected while another is still
  connected, a query goes to the connected client, a disconnect closes the connected
  client, and no client is connected when the process exits or the run ends. The first
  argument is the client connected so far, if any.
\<close>

fun scoped :: "string option option \<Rightarrow> event list \<Rightarrow> bool" where
  "scoped c [] = (c = None)"
| "scoped c (Connect u # t) = (c = None \<and> scoped (Some u) t)"
| "scoped c (QueryRaw u q # t) = (c = Some u \<and> scoped c t)"
| "scoped c (Disconnect u # t) = (c = Some u \<and> scoped None t)"
| "scoped c (ProcessExit n # t) = (c = None \<and> scoped c t)"
| "scoped c (ConsoleLog k m # t) = scoped c t"
| "scoped c (ExecSync m # t) = scoped c t"

subsection \<open>The specification's wording\<close>

text \<open>The minimum version of a database family: 9.4.0 for postgresql, 5.7.0 for any other.\<close>

definition family_minimum :: "string option \<Rightarrow> semver" where
  "family_minimum family =
     (if family = Some ''postgresql'' then \<lparr>major = 9, minor = 4, patch = 0\<rparr>
      else \<lparr>major = 5, minor = 7, patch = 0\<rparr>)"

text \<open>The ordering of versions by major, then minor, then patch.\<close>

definition version_below :: "semver \<Rightarrow> semver \<Rightarrow> bool" where
  "version_below a b =
     (major a < major b
      \<or> (major a = major b \<and> (minor a < minor b
           \<or> (minor a = minor b \<and> patch a < patch b))))"

text \<open>
  The failure of the version gate: the call throws the error that names the family and
  its minimum, right after the version query, and does nothing further but disconnect.
\<close>

definition incompatible_failure :: "string option \<Rightarrow> string \<Rightarrow> unit outcome \<times> event list" where
  "incompatible_failure dbUrl label =
     (Throws (bracket label @ bracket label
              @ ''Database version is not compatible. Please upgrade ''
              @ template (getDatabaseType dbUrl) @ '' to version ''
              @ version_string (family_minimum (getDatabaseType dbUrl)) @ '' or greater.''),
      [Connect dbUrl,
       success (bracket label @ ''Database connection successful.''),
       QueryRaw dbUrl version_sql,
       Disconnect dbUrl])"

text \<open>The line printed when the version gate lets a version pass.\<close>

definition compatible_line :: "string \<Rightarrow> semver \<Rightarrow> event" where
  "compatible_line label v =
     success (bracket label @ ''Database version ('' @ version_string v @ '') is compatible.'')"

text \<open>The check of one data source in a run: the variable names it, its value is the URL.\<close>

definition check_of :: "env \<Rightarrow> (string \<Rightarrow> responses) \<Rightarrow> string \<Rightarrow> unit outcome \<times> event list" where
  "check_of env world envVar = performChecks (world envVar) (env envVar) envVar"

text \<open>The line that the environment check prints for a variable.\<close>

definition env_line :: "env \<Rightarrow> string \<Rightarrow> event" where
  "env_line env envVar =
     (if truthy (env envVar) then success (envVar @ '' is defined.'')
      else error (envVar @ '' is not defined.''))"


subsection \<open>Example inputs\<close>

text \<open>
  A database that accepts the connection, reports the given version string, holds the
  given rows of early migrations, and for which the migration command prints \<open>ok\<close>.
\<close>

definition database :: "string \<Rightarrow> string list \<Rightarrow> responses" where
  "database raw early =
     \<lparr>connect_reply = Returns (), version_reply = Returns [Some raw],
      migrations_reply = Returns early, deploy_reply = Returns ''ok''\<rparr>"

definition both_urls :: env where
  "both_urls =
     [''DATABASE_URL'' \<mapsto> ''postgresql://app@db/umami'',
      ''DIRECT_DATABASE_URL'' \<mapsto> ''postgres://admin@db/umami'']"

text \<open>An environment in which the second required variable is set to the empty string.\<close>

definition direct_url_empty :: env where
  "direct_url_empty =
     [''DATABASE_URL'' \<mapsto> ''postgresql://app@db/umami'',
      ''DIRECT_DATABASE_URL'' \<mapsto> []]"




section \<open>Properties\<close>

subsection \<open>getDatabaseType\<close>

lemma first_elem_str_split:
  "first_elem (str_split sep s) = Some (takeWhile (\<lambda>c. c \<noteq> sep) s)"
  by (induction s) (auto simp: first_elem_def split: list.splits)

text \<open>
  C6. For every URL string, \<open>getDatabaseType\<close> returns \<open>postgresql\<close> when the part
  of the URL before its first colon is \<open>postgres\<close>, and returns that part unchanged
  otherwise.
\<close>

theorem getDatabaseType_scheme:
  "getDatabaseType (Some url) =
     Some (if scheme url = ''postgres'' then ''postgresql'' else scheme url)"
proof (cases "url = []")
  case True
  then show ?thesis by (simp add: getDatabaseType_def scheme_def)
next
  case False
  then show ?thesis
    by (simp add: getDatabaseType_def scheme_def first_elem_str_split)
qed

subsection \<open>The skip guard\<close>

text \<open>
  C5. Whatever the rest of the environment and whatever the databases would answer, a
  truthy \<open>SKIP_DB_CHECK\<close> makes the run print one line and exit with code 0: no line
  of the environment check is printed and no connection is attempted.
\<close>

theorem skip_exits_zero:
  assumes "truthy (env ''SKIP_DB_CHECK'')"
  shows "main env world = [ConsoleLog plain ''Skipping database check.'', ProcessExit 0]
    \<and> exit_code (main env world) = Some 0
    \<and> \<not> list_ex is_connect (main env world)"
  using assms by (simp add: main_def exit_code_def)

theorem skip_exits_zero_witness:
  "truthy ([''SKIP_DB_CHECK'' \<mapsto> ''1''] ''SKIP_DB_CHECK'')
   \<and> main [''SKIP_DB_CHECK'' \<mapsto> ''1''] (\<lambda>v. database ''PostgreSQL 14.2'' [])
       = [ConsoleLog plain ''Skipping database check.'', ProcessExit 0]
   \<and> exit_code (main [''SKIP_DB_CHECK'' \<mapsto> ''1''] (\<lambda>v. database ''PostgreSQL 14.2'' []))
       = Some 0
   \<and> \<not> list_ex is_connect
         (main [''SKIP_DB_CHECK'' \<mapsto> ''1''] (\<lambda>v. database ''PostgreSQL 14.2'' []))"
proof -
  have h: "truthy ([''SKIP_DB_CHECK'' \<mapsto> ''1''] ''SKIP_DB_CHECK'')"
    by (simp add: truthy_def)
  from skip_exits_zero [of "[''SKIP_DB_CHECK'' \<mapsto> ''1'']" "\<lambda>v. database ''PostgreSQL 14.2'' []"] h
  show ?thesis by blast
qed

subsection \<open>The version gate\<close>

lemma semver_lt_version_below: "semver_lt a b = version_below a b"
  by (auto simp: semver_lt_def semver_compare_def compareIdentifiers_def version_below_def)

lemma minVersion_family_minimum:
  "(if t = Some ''postgresql'' then min_postgresql else min_other) = family_minimum t"
  by (simp add: family_minimum_def min_postgresql_def min_other_def)

lemma performChecks_incompatible:
  assumes "connect_reply w = Returns ()"
      and "version_reply w = Returns (versionString # rows)"
      and "semver_valid (semver_coerce versionString) = Some v"
      and "version_below v (family_minimum (getDatabaseType dbUrl))"
  shows "performChecks w dbUrl label = incompatible_failure dbUrl label"
  using assms
  by (simp add: performChecks_def performChecks_try_def first_elem_def Let_def
      minVersion_family_minimum semver_lt_version_below incompatible_failure_def)

lemma performChecks_compatible:
  assumes "connect_reply w = Returns ()"
      and "version_reply w = Returns (versionString # rows)"
      and "semver_valid (semver_coerce versionString) = Some v"
      and "\<not> version_below v (family_minimum (getDatabaseType dbUrl))"
  shows "\<exists>t. snd (performChecks w dbUrl label) =
     [Connect dbUrl,
      success (bracket label @ ''Database connection successful.''),
      QueryRaw dbUrl version_sql,
      compatible_line label v,
      QueryRaw dbUrl migrations_sql] @ t"
  using assms
  by (simp add: performChecks_def performChecks_try_def first_elem_def Let_def compatible_line_def
      minVersion_family_minimum semver_lt_version_below split: outcome.splits)

lemma compatible_line_not_in_failure:
  "compatible_line label v \<notin> set (snd (incompatible_failure dbUrl label))"
  by (simp add: incompatible_failure_def compatible_line_def success_def)

text \<open>
  C1. Once the database has reported a version string that coerces to a version, the
  call fails at the version gate exactly when that version is below the minimum of the
  family of the URL in the ordering by major, minor and patch (9.4.0 for postgresql,
  5.7.0 for any other family), and prints that the version is compatible exactly when
  it is not below. The witness runs 8.0.0 and 9.4.0 against postgresql and 5.6.9
  against mysql.
\<close>

theorem version_gate_fails_iff_below_minimum:
  assumes "connect_reply w = Returns ()"
      and "version_reply w = Returns (Some raw # rows)"
      and "semver_valid (semver_coerce (Some raw)) = Some v"
  shows "(performChecks w dbUrl label = incompatible_failure dbUrl label)
            = version_below v (family_minimum (getDatabaseType dbUrl))
       \<and> (compatible_line label v \<in> set (snd (performChecks w dbUrl label)))
            = (\<not> version_below v (family_minimum (getDatabaseType dbUrl)))"
proof (cases "version_below v (family_minimum (getDatabaseType dbUrl))")
  case True
  from performChecks_incompatible [OF assms True]
  have "performChecks w dbUrl label = incompatible_failure dbUrl label" .
  with True show ?thesis
    by (simp add: compatible_line_not_in_failure)
next
  case False
  from performChecks_compatible [OF assms False]
  obtain t where t: "snd (performChecks w dbUrl label) =
     [Connect dbUrl,
      success (bracket label @ ''Database connection successful.''),
      QueryRaw dbUrl version_sql,
      compatible_line label v,
      QueryRaw dbUrl migrations_sql] @ t" by blast
  have "snd (performChecks w dbUrl label) \<noteq> snd (incompatible_failure dbUrl label)"
    unfolding t by (simp add: incompatible_failure_def)
  then have "performChecks w dbUrl label \<noteq> incompatible_failure dbUrl label"
    by auto
  moreover have "compatible_line label v \<in> set (snd (performChecks w dbUrl label))"
    unfolding t by simp
  ultimately show ?thesis using False by simp
qed

lemmas coerce_eval =
  semver_valid_def semver_coerce_def is_digit_def dot_digits_def MAX_SAFE_COMPONENT_LENGTH_def
  numeric_identifier_def or_zero_def nat_of_digits_def digit_value_def MAX_SAFE_INTEGER_def

lemmas url_eval = getDatabaseType_def first_elem_def

theorem version_gate_fails_iff_below_minimum_witness:
  "semver_valid (semver_coerce (Some ''PostgreSQL 8.0.0'')) = Some \<lparr>major = 8, minor = 0, patch = 0\<rparr>
   \<and> performChecks (database ''PostgreSQL 8.0.0'' []) (Some ''postgresql://app@db/umami'') ''DATABASE_URL''
       = incompatible_failure (Some ''postgresql://app@db/umami'') ''DATABASE_URL''
   \<and> semver_valid (semver_coerce (Some ''PostgreSQL 9.4.0'')) = Some \<lparr>major = 9, minor = 4, patch = 0\<rparr>
   \<and> performChecks (database ''PostgreSQL 9.4.0'' []) (Some ''postgres://admin@db/umami'') ''DATABASE_URL''
       \<noteq> incompatible_failure (Some ''postgres://admin@db/umami'') ''DATABASE_URL''
   \<and> compatible_line ''DATABASE_URL'' \<lparr>major = 9, minor = 4, patch = 0\<rparr>
       \<in> set (snd (performChecks (database ''PostgreSQL 9.4.0'' []) (Some ''postgres://admin@db/umami'')
                   ''DATABASE_URL''))
   \<and> semver_valid (semver_coerce (Some ''5.6.9-log'')) = Some \<lparr>major = 5, minor = 6, patch = 9\<rparr>
   \<and> performChecks (database ''5.6.9-log'' []) (Some ''mysql://app@db/umami'') ''DATABASE_URL''
       = incompatible_failure (Some ''mysql://app@db/umami'') ''DATABASE_URL''"
proof -
  have c: "connect_reply (database raw early) = Returns ()"
    and q: "version_reply (database raw early) = Returns (Some raw # [])" for raw early
    by (simp_all add: database_def)
  have p1: "semver_valid (semver_coerce (Some ''PostgreSQL 8.0.0''))
      = Some \<lparr>major = 8, minor = 0, patch = 0\<rparr>"
    by (simp add: coerce_eval)
  have p2: "semver_valid (semver_coerce (Some ''PostgreSQL 9.4.0''))
      = Some \<lparr>major = 9, minor = 4, patch = 0\<rparr>"
    by (simp add: coerce_eval)
  have p3: "semver_valid (semver_coerce (Some ''5.6.9-log''))
      = Some \<lparr>major = 5, minor = 6, patch = 9\<rparr>"
    by (simp add: coerce_eval)
  have b1: "version_below \<lparr>major = 8, minor = 0, patch = 0\<rparr>
      (family_minimum (getDatabaseType (Some ''postgresql://app@db/umami'')))"
    by (simp add: url_eval family_minimum_def version_below_def)
  have b2: "\<not> version_below \<lparr>major = 9, minor = 4, patch = 0\<rparr>
      (family_minimum (getDatabaseType (Some ''postgres://admin@db/umami'')))"
    by (simp add: url_eval family_minimum_def version_below_def)
  have b3: "version_below \<lparr>major = 5, minor = 6, patch = 9\<rparr>
      (family_minimum (getDatabaseType (Some ''mysql://app@db/umami'')))"
    by (simp add: url_eval family_minimum_def version_below_def)
  from version_gate_fails_iff_below_minimum [OF c q p1] b1
  have r1: "performChecks (database ''PostgreSQL 8.0.0'' []) (Some ''postgresql://app@db/umami'') ''DATABASE_URL''
       = incompatible_failure (Some ''postgresql://app@db/umami'') ''DATABASE_URL''"
    by blast
  from version_gate_fails_iff_below_minimum [OF c q p2] b2
  have r2: "performChecks (database ''PostgreSQL 9.4.0'' []) (Some ''postgres://admin@db/umami'') ''DATABASE_URL''
       \<noteq> incompatible_failure (Some ''postgres://admin@db/umami'') ''DATABASE_URL''
     \<and> compatible_line ''DATABASE_URL'' \<lparr>major = 9, minor = 4, patch = 0\<rparr>
       \<in> set (snd (performChecks (database ''PostgreSQL 9.4.0'' []) (Some ''postgres://admin@db/umami'')
                   ''DATABASE_URL''))"
    by blast
  from version_gate_fails_iff_below_minimum [OF c q p3] b3
  have r3: "performChecks (database ''5.6.9-log'' []) (Some ''mysql://app@db/umami'') ''DATABASE_URL''
       = incompatible_failure (Some ''mysql://app@db/umami'') ''DATABASE_URL''"
    by blast
  from p1 p2 p3 r1 r2 r3 show ?thesis by blast
qed

lemma performChecks_unparseable:
  assumes "connect_reply w = Returns ()"
      and "version_reply w = Returns (versionString # rows)"
      and "semver_valid (semver_coerce versionString) = None"
  shows "performChecks w dbUrl label =
     (Throws (bracket label @ bracket label @ ''Unable to parse database version.''),
      [Connect dbUrl,
       success (bracket label @ ''Database connection successful.''),
       QueryRaw dbUrl version_sql,
       Disconnect dbUrl])"
  using assms
  by (simp add: performChecks_def performChecks_try_def first_elem_def Let_def)

text \<open>
  C7. When the database reports a version string that does not coerce to a version, the
  call fails with the error \<open>Unable to parse database version\<close> right after the version
  query: no version is reported as compatible and the migration command is not run. The
  empty string is such a string (the witness).
\<close>

theorem unparseable_version_never_passes:
  assumes "connect_reply w = Returns ()"
      and "version_reply w = Returns (Some raw # rows)"
      and "semver_valid (semver_coerce (Some raw)) = None"
  shows "performChecks w dbUrl label =
     (Throws (bracket label @ bracket label @ ''Unable to parse database version.''),
      [Connect dbUrl,
       success (bracket label @ ''Database connection successful.''),
       QueryRaw dbUrl version_sql,
       Disconnect dbUrl])
    \<and> (\<forall>v. compatible_line label v \<notin> set (snd (performChecks w dbUrl label)))
    \<and> \<not> list_ex is_exec (snd (performChecks w dbUrl label))"
  unfolding performChecks_unparseable [OF assms]
  by (simp add: compatible_line_def success_def)

theorem unparseable_version_never_passes_witness:
  "semver_valid (semver_coerce (Some '''')) = None
   \<and> performChecks (database '''' []) (Some ''postgresql://app@db/umami'') ''DATABASE_URL'' =
      (Throws ''[DATABASE_URL] [DATABASE_URL] Unable to parse database version.'',
       [Connect (Some ''postgresql://app@db/umami''),
        success ''[DATABASE_URL] Database connection successful.'',
        QueryRaw (Some ''postgresql://app@db/umami'') ''SELECT version()'',
        Disconnect (Some ''postgresql://app@db/umami'')])
   \<and> \<not> list_ex is_exec
        (snd (performChecks (database '''' []) (Some ''postgresql://app@db/umami'') ''DATABASE_URL''))"
proof -
  have c: "connect_reply (database [] []) = Returns ()"
    and q: "version_reply (database [] []) = Returns (Some [] # [])"
    by (simp_all add: database_def)
  have p: "semver_valid (semver_coerce (Some [])) = None"
    by (simp add: semver_valid_def semver_coerce_def)
  from unparseable_version_never_passes [OF c q p, of "Some ''postgresql://app@db/umami''" "''DATABASE_URL''"] p
  show ?thesis by (simp add: bracket_def version_sql_def success_def)
qed

text \<open>
  C8 (as amended). When the version gate fails because the version is below the
  minimum, the error carries the label, the database family and the minimum version;
  it is the same error, after the same events, whatever the actual version below the
  minimum is, so it does not carry the actual version.
\<close>

theorem incompatible_error_names_family_and_minimum:
  assumes "connect_reply w = Returns ()"
      and "version_reply w = Returns (Some raw # rows)"
      and "semver_valid (semver_coerce (Some raw)) = Some v"
      and "version_below v (family_minimum (getDatabaseType dbUrl))"
  shows "fst (performChecks w dbUrl label) =
      Throws (bracket label @ bracket label
              @ ''Database version is not compatible. Please upgrade ''
              @ template (getDatabaseType dbUrl) @ '' to version ''
              @ version_string (family_minimum (getDatabaseType dbUrl)) @ '' or greater.'')
    \<and> (\<forall>w' raw' rows' v'.
          connect_reply w' = Returns ()
          \<and> version_reply w' = Returns (Some raw' # rows')
          \<and> semver_valid (semver_coerce (Some raw')) = Some v'
          \<and> version_below v' (family_minimum (getDatabaseType dbUrl))
          \<longrightarrow> performChecks w' dbUrl label = performChecks w dbUrl label)"
  using performChecks_incompatible [OF assms]
  by (auto simp: incompatible_failure_def performChecks_incompatible)

theorem incompatible_error_names_family_and_minimum_witness:
  "fst (performChecks (database ''5.6.9-log'' []) (Some ''mysql://app@db/umami'') ''DATABASE_URL'') =
      Throws ''[DATABASE_URL] [DATABASE_URL] Database version is not compatible. Please upgrade mysql to version 5.7.0 or greater.''
   \<and> performChecks (database ''5.5.62'' []) (Some ''mysql://app@db/umami'') ''DATABASE_URL''
     = performChecks (database ''5.6.9-log'' []) (Some ''mysql://app@db/umami'') ''DATABASE_URL''"
proof -
  have c: "connect_reply (database raw early) = Returns ()"
    and q: "version_reply (database raw early) = Returns (Some raw # [])" for raw early
    by (simp_all add: database_def)
  have p: "semver_valid (semver_coerce (Some ''5.6.9-log''))
      = Some \<lparr>major = 5, minor = 6, patch = 9\<rparr>"
    by (simp add: coerce_eval)
  have p': "semver_valid (semver_coerce (Some ''5.5.62''))
      = Some \<lparr>major = 5, minor = 5, patch = 62\<rparr>"
    by (simp add: coerce_eval)
  have t: "getDatabaseType (Some ''mysql://app@db/umami'') = Some ''mysql''"
    by (simp add: url_eval)
  have b: "version_below \<lparr>major = 5, minor = 6, patch = 9\<rparr>
      (family_minimum (getDatabaseType (Some ''mysql://app@db/umami'')))"
    by (simp add: t family_minimum_def version_below_def)
  have b': "version_below \<lparr>major = 5, minor = 5, patch = 62\<rparr>
      (family_minimum (getDatabaseType (Some ''mysql://app@db/umami'')))"
    by (simp add: t family_minimum_def version_below_def)
  note th = incompatible_error_names_family_and_minimum [OF c q p b, of "[]" "''DATABASE_URL''"]
  from th have "fst (performChecks (database ''5.6.9-log'' []) (Some ''mysql://app@db/umami'') ''DATABASE_URL'') =
      Throws ''[DATABASE_URL] [DATABASE_URL] Database version is not compatible. Please upgrade mysql to version 5.7.0 or greater.''"
    by (simp add: t bracket_def template_def family_minimum_def version_string_def string_of_nat.simps)
  moreover from th c q p' b'
  have "performChecks (database ''5.5.62'' []) (Some ''mysql://app@db/umami'') ''DATABASE_URL''
     = performChecks (database ''5.6.9-log'' []) (Some ''mysql://app@db/umami'') ''DATABASE_URL''"
    by blast
  ultimately show ?thesis by blast
qed

text \<open>
  C8 as stated fails: PostgreSQL reporting 8.0.0 is refused with an error in which the
  actual version 8.0.0 does not occur, and reporting 9.3.25 gives the very same error and
  events.
\<close>

theorem incompatible_error_omits_actual_version:
  "semver_valid (semver_coerce (Some ''PostgreSQL 8.0.0'')) = Some \<lparr>major = 8, minor = 0, patch = 0\<rparr>
   \<and> semver_lt \<lparr>major = 8, minor = 0, patch = 0\<rparr> min_postgresql
   \<and> version_string \<lparr>major = 8, minor = 0, patch = 0\<rparr> = ''8.0.0''
   \<and> fst (performChecks (database ''PostgreSQL 8.0.0'' []) (Some ''postgresql://app@db/umami'') ''DATABASE_URL'') =
      Throws ''[DATABASE_URL] [DATABASE_URL] Database version is not compatible. Please upgrade postgresql to version 9.4.0 or greater.''
   \<and> \<not> sublist ''8.0.0''
        ''[DATABASE_URL] [DATABASE_URL] Database version is not compatible. Please upgrade postgresql to version 9.4.0 or greater.''
   \<and> semver_valid (semver_coerce (Some ''PostgreSQL 9.3.25'')) = Some \<lparr>major = 9, minor = 3, patch = 25\<rparr>
   \<and> performChecks (database ''PostgreSQL 9.3.25'' []) (Some ''postgresql://app@db/umami'') ''DATABASE_URL''
     = performChecks (database ''PostgreSQL 8.0.0'' []) (Some ''postgresql://app@db/umami'') ''DATABASE_URL''"
proof -
  have c: "connect_reply (database raw early) = Returns ()"
    and q: "version_reply (database raw early) = Returns (Some raw # [])" for raw early
    by (simp_all add: database_def)
  have p: "semver_valid (semver_coerce (Some ''PostgreSQL 8.0.0''))
      = Some \<lparr>major = 8, minor = 0, patch = 0\<rparr>"
    by (simp add: coerce_eval)
  have p': "semver_valid (semver_coerce (Some ''PostgreSQL 9.3.25''))
      = Some \<lparr>major = 9, minor = 3, patch = 25\<rparr>"
    by (simp add: coerce_eval)
  have t: "getDatabaseType (Some ''postgresql://app@db/umami'') = Some ''postgresql''"
    by (simp add: url_eval)
  have b: "version_below \<lparr>major = 8, minor = 0, patch = 0\<rparr>
      (family_minimum (getDatabaseType (Some ''postgresql://app@db/umami'')))"
    by (simp add: t family_minimum_def version_below_def)
  have b': "version_below \<lparr>major = 9, minor = 3, patch = 25\<rparr>
      (family_minimum (getDatabaseType (Some ''postgresql://app@db/umami'')))"
    by (simp add: t family_minimum_def version_below_def)
  have s: "version_string \<lparr>major = 8, minor = 0, patch = 0\<rparr> = ''8.0.0''"
    by (simp add: version_string_def string_of_nat.simps)
  have r: "performChecks (database ''PostgreSQL 8.0.0'' []) (Some ''postgresql://app@db/umami'') ''DATABASE_URL''
      = incompatible_failure (Some ''postgresql://app@db/umami'') ''DATABASE_URL''"
    by (rule performChecks_incompatible [OF c q p b])
  have r': "performChecks (database ''PostgreSQL 9.3.25'' []) (Some ''postgresql://app@db/umami'') ''DATABASE_URL''
      = incompatible_failure (Some ''postgresql://app@db/umami'') ''DATABASE_URL''"
    by (rule performChecks_incompatible [OF c q p' b'])
  have m: "fst (incompatible_failure (Some ''postgresql://app@db/umami'') ''DATABASE_URL'') =
      Throws ''[DATABASE_URL] [DATABASE_URL] Database version is not compatible. Please upgrade postgresql to version 9.4.0 or greater.''"
    by (simp add: incompatible_failure_def t bracket_def template_def family_minimum_def
        version_string_def string_of_nat.simps)
  have n: "\<not> sublist ''8.0.0''
        ''[DATABASE_URL] [DATABASE_URL] Database version is not compatible. Please upgrade postgresql to version 9.4.0 or greater.''"
    by (simp add: sublist_Cons_right)
  have lt: "semver_lt \<lparr>major = 8, minor = 0, patch = 0\<rparr> min_postgresql"
    by (simp add: semver_lt_def semver_compare_def compareIdentifiers_def min_postgresql_def)
  from p lt s m n p' r r' show ?thesis by simp
qed

subsection \<open>The environment check\<close>

lemma checkEnv_forEach_eq:
  "checkEnv_forEach env vs (b, t) =
     (b \<and> (\<forall>v\<in>set vs. truthy (env v)), t @ map (env_line env) vs)"
  by (induction vs arbitrary: b t) (auto simp: env_line_def)

lemma checkEnv_eq:
  "checkEnv env =
     (if \<forall>v\<in>set DATABASE_URLS. truthy (env v) then Returns ()
      else Throws ''One or more required database environment variables are missing.'',
      map (env_line env) DATABASE_URLS)"
  by (simp add: checkEnv_def checkEnv_forEach_eq)

subsection \<open>The loop over the data sources\<close>

lemma check_each_all_pass:
  assumes "\<forall>v\<in>set vs. fst (check_of env world v) = Returns ()"
  shows "check_each env world vs = (Returns (), concat (map (\<lambda>v. snd (check_of env world v)) vs))"
  using assms
proof (induction vs)
  case Nil
  then show ?case by simp
next
  case (Cons v vs)
  then show ?case
    by (cases "performChecks (world v) (env v) v") (auto simp: check_of_def split: outcome.splits)
qed


lemma check_each_returns_iff:
  "(fst (check_each env world vs) = Returns ())
     = (\<forall>v\<in>set vs. fst (check_of env world v) = Returns ())"
proof (induction vs)
  case Nil
  then show ?case by simp
next
  case (Cons v vs)
  then show ?case
    by (cases "performChecks (world v) (env v) v"; cases "check_each env world vs")
       (auto simp: check_of_def split: outcome.splits)
qed


lemma main_exit_code:
  "exit_code (main env world) =
     Some (if truthy (env ''SKIP_DB_CHECK'')
              \<or> ((\<forall>v\<in>set DATABASE_URLS. truthy (env v))
                  \<and> (\<forall>v\<in>set DATABASE_URLS. fst (check_of env world v) = Returns ()))
           then 0 else 1)"
proof -
  have "exit_code (t @ t' @ [x, ProcessExit c]) = Some c" for t t' x c
    by (simp add: exit_code_def)
  moreover have "exit_code (t @ [x, ProcessExit c]) = Some c" for t x c
    by (simp add: exit_code_def)
  moreover have "exit_code [x, ProcessExit c] = Some c" for x c
    by (simp add: exit_code_def)
  ultimately show ?thesis
    using check_each_returns_iff [of env world DATABASE_URLS]
    by (cases "check_each env world DATABASE_URLS")
       (auto simp: main_def checkEnv_eq split: outcome.splits)
qed

subsection \<open>The events of one call\<close>

lemma body_event_line [simp]: "body_event u (success m)" "body_event u (error m)"
  by (simp_all add: success_def error_def)

lemma is_exec_line [simp]: "\<not> is_exec (success m)" "\<not> is_exec (error m)"
  by (simp_all add: success_def error_def)

lemma performChecks_try_shape:
  "\<exists>mid. snd (performChecks_try w dbUrl label) = Connect dbUrl # mid
        \<and> list_all (body_event dbUrl) mid"
  by (simp add: performChecks_try_def Let_def split: outcome.splits option.splits)

lemma performChecks_shape:
  "\<exists>mid. snd (performChecks w dbUrl label) = Connect dbUrl # mid @ [Disconnect dbUrl]
        \<and> list_all (body_event dbUrl) mid"
  using performChecks_try_shape [of w dbUrl label]
  by (cases "performChecks_try w dbUrl label") (auto simp: performChecks_def)


lemma body_scoped:
  "list_all (body_event u) mid \<Longrightarrow> scoped (Some u) (mid @ t) = scoped (Some u) t"
proof (induction mid)
  case Nil
  then show ?case by simp
next
  case (Cons e mid)
  then show ?case by (cases e) simp_all
qed

lemma body_exec:
  "list_all (body_event u) mid \<Longrightarrow> ExecSync c \<in> set mid \<Longrightarrow> c = migrate_command"
  by (induction mid) auto


lemma performChecks_scoped:
  "scoped None (snd (performChecks w dbUrl label) @ t) = scoped None t"
proof -
  from performChecks_shape [of w dbUrl label]
  obtain mid where "snd (performChecks w dbUrl label) = Connect dbUrl # mid @ [Disconnect dbUrl]"
    and "list_all (body_event dbUrl) mid" by blast
  then show ?thesis by (simp add: body_scoped)
qed

lemma performChecks_exec_command:
  assumes "ExecSync c \<in> set (snd (performChecks w dbUrl label))"
  shows "c = migrate_command"
proof -
  from performChecks_shape [of w dbUrl label]
  obtain mid where "snd (performChecks w dbUrl label) = Connect dbUrl # mid @ [Disconnect dbUrl]"
    and "list_all (body_event dbUrl) mid" by blast
  with assms show ?thesis by (auto dest: body_exec)
qed

lemma performChecks_try_legacy:
  assumes "migrations_reply w = Returns rows" and "rows \<noteq> []"
  shows "case performChecks_try w dbUrl label of
           (r, t) \<Rightarrow> (\<exists>e. r = Throws e) \<and> \<not> list_ex is_exec t"
  using assms
  by (simp add: performChecks_try_def Let_def split: outcome.splits option.splits)

lemma performChecks_legacy:
  assumes "migrations_reply w = Returns rows" and "rows \<noteq> []"
  shows "(\<exists>e. fst (performChecks w dbUrl label) = Throws e)
       \<and> \<not> list_ex is_exec (snd (performChecks w dbUrl label))"
  using performChecks_try_legacy [OF assms, of dbUrl label]
  by (cases "performChecks_try w dbUrl label") (auto simp: performChecks_def)

lemma performChecks_healthy:
  assumes "connect_reply w = Returns ()"
      and "version_reply w = Returns (versionString # rows)"
      and "semver_valid (semver_coerce versionString) = Some v"
      and "\<not> version_below v (family_minimum (getDatabaseType dbUrl))"
      and "migrations_reply w = Returns []"
      and "deploy_reply w = Returns out"
  shows "performChecks w dbUrl label =
     (Returns (),
      [Connect dbUrl,
       success (bracket label @ ''Database connection successful.''),
       QueryRaw dbUrl version_sql,
       compatible_line label v,
       QueryRaw dbUrl migrations_sql,
       success (bracket label @ ''No Umami v1 tables detected.''),
       ExecSync migrate_command,
       ConsoleLog plain out,
       success (bracket label @ ''Database is up to date.''),
       Disconnect dbUrl])"
  using assms
  by (simp add: performChecks_def performChecks_try_def first_elem_def Let_def compatible_line_def
      minVersion_family_minimum semver_lt_version_below)

lemma performChecks_legacy_reached:
  assumes "connect_reply w = Returns ()"
      and "version_reply w = Returns (versionString # rows)"
      and "semver_valid (semver_coerce versionString) = Some v"
      and "\<not> version_below v (family_minimum (getDatabaseType dbUrl))"
      and "migrations_reply w = Returns early"
      and "early \<noteq> []"
  shows "performChecks w dbUrl label =
     (Throws (bracket label @ bracket label @ ''Umami v1 tables detected.''),
      [Connect dbUrl,
       success (bracket label @ ''Database connection successful.''),
       QueryRaw dbUrl version_sql,
       compatible_line label v,
       QueryRaw dbUrl migrations_sql,
       error (bracket label
         @ ''Umami v1 tables detected. To upgrade from v1 to v2, visit https://umami.is/docs/migrate-v1-v2.''),
       Disconnect dbUrl])"
  using assms
  by (simp add: performChecks_def performChecks_try_def first_elem_def Let_def compatible_line_def
      minVersion_family_minimum semver_lt_version_below)

text \<open>
  C3. When the legacy-migrations query of a data source returns a non-empty result, the
  call for that data source throws and never runs the migration command; where the
  query is reached, it is the query for the rows of \<open>_prisma_migrations\<close> started
  before 2023-04-17, and the call prints the pointer to the migration guide, throws
  \<open>Umami v1 tables detected\<close> and disconnects; and a run in which this happens for any
  of the data sources exits with code 1, unless it was skipped.
\<close>

theorem legacy_rows_are_fatal:
  assumes "migrations_reply w = Returns early" and "early \<noteq> []"
  shows "(\<exists>e. fst (performChecks w dbUrl label) = Throws e)
    \<and> \<not> list_ex is_exec (snd (performChecks w dbUrl label))
    \<and> (connect_reply w = Returns ()
         \<and> version_reply w = Returns (versionString # rows)
         \<and> semver_valid (semver_coerce versionString) = Some v
         \<and> \<not> version_below v (family_minimum (getDatabaseType dbUrl))
        \<longrightarrow> performChecks w dbUrl label =
             (Throws (bracket label @ bracket label @ ''Umami v1 tables detected.''),
              [Connect dbUrl,
               success (bracket label @ ''Database connection successful.''),
               QueryRaw dbUrl version_sql,
               compatible_line label v,
               QueryRaw dbUrl migrations_sql,
               error (bracket label
                 @ ''Umami v1 tables detected. To upgrade from v1 to v2, visit https://umami.is/docs/migrate-v1-v2.''),
               Disconnect dbUrl]))
    \<and> (\<not> truthy (env ''SKIP_DB_CHECK'') \<and> label \<in> set DATABASE_URLS \<and> world label = w
        \<longrightarrow> exit_code (main env world) = Some 1)"
proof -
  have a: "(\<exists>e. fst (performChecks w dbUrl label) = Throws e)
      \<and> \<not> list_ex is_exec (snd (performChecks w dbUrl label))"
    by (rule performChecks_legacy [OF assms])
  have b: "performChecks w dbUrl label =
             (Throws (bracket label @ bracket label @ ''Umami v1 tables detected.''),
              [Connect dbUrl,
               success (bracket label @ ''Database connection successful.''),
               QueryRaw dbUrl version_sql,
               compatible_line label v,
               QueryRaw dbUrl migrations_sql,
               error (bracket label
                 @ ''Umami v1 tables detected. To upgrade from v1 to v2, visit https://umami.is/docs/migrate-v1-v2.''),
               Disconnect dbUrl])"
    if "connect_reply w = Returns ()"
      and "version_reply w = Returns (versionString # rows)"
      and "semver_valid (semver_coerce versionString) = Some v"
      and "\<not> version_below v (family_minimum (getDatabaseType dbUrl))"
    by (rule performChecks_legacy_reached [OF that assms])
  have c: "exit_code (main env world) = Some 1"
    if "\<not> truthy (env ''SKIP_DB_CHECK'')" and "label \<in> set DATABASE_URLS" and "world label = w"
  proof -
    from performChecks_legacy [OF assms, of "env label" label] that(3)
    have "fst (check_of env world label) \<noteq> Returns ()"
      by (auto simp: check_of_def)
    with that(1,2) show ?thesis
      by (auto simp: main_exit_code)
  qed
  from a b c show ?thesis by blast
qed

theorem legacy_rows_are_fatal_witness:
  "migrations_reply (database ''PostgreSQL 14.2'' [''20200101000000_init'']) = Returns [''20200101000000_init'']
   \<and> fst (performChecks (database ''PostgreSQL 14.2'' [''20200101000000_init''])
          (Some ''postgresql://app@db/umami'') ''DATABASE_URL'')
      = Throws ''[DATABASE_URL] [DATABASE_URL] Umami v1 tables detected.''
   \<and> \<not> list_ex is_exec (snd (performChecks (database ''PostgreSQL 14.2'' [''20200101000000_init''])
          (Some ''postgresql://app@db/umami'') ''DATABASE_URL''))
   \<and> exit_code (main both_urls (\<lambda>v. database ''PostgreSQL 14.2'' [''20200101000000_init''])) = Some 1"
proof -
  let ?w = "database ''PostgreSQL 14.2'' [''20200101000000_init'']"
  have m: "migrations_reply ?w = Returns [''20200101000000_init'']"
    and c: "connect_reply ?w = Returns ()"
    and q: "version_reply ?w = Returns (Some ''PostgreSQL 14.2'' # [])"
    by (simp_all add: database_def)
  have n: "[''20200101000000_init''] \<noteq> []" by simp
  have p: "semver_valid (semver_coerce (Some ''PostgreSQL 14.2''))
      = Some \<lparr>major = 14, minor = 2, patch = 0\<rparr>"
    by (simp add: coerce_eval)
  have b: "\<not> version_below \<lparr>major = 14, minor = 2, patch = 0\<rparr>
      (family_minimum (getDatabaseType (Some ''postgresql://app@db/umami'')))"
    by (simp add: url_eval family_minimum_def version_below_def)
  have s: "\<not> truthy (both_urls ''SKIP_DB_CHECK'')"
    by (simp add: both_urls_def truthy_def)
  have l: "''DATABASE_URL'' \<in> set DATABASE_URLS"
    by (simp add: DATABASE_URLS_def)
  note th = legacy_rows_are_fatal [OF m n, of "Some ''postgresql://app@db/umami''" "''DATABASE_URL''"
      "Some ''PostgreSQL 14.2''" "[]" "\<lparr>major = 14, minor = 2, patch = 0\<rparr>" both_urls "\<lambda>v. ?w"]
  from th c q p b have "fst (performChecks ?w (Some ''postgresql://app@db/umami'') ''DATABASE_URL'')
      = Throws ''[DATABASE_URL] [DATABASE_URL] Umami v1 tables detected.''"
    by (simp add: bracket_def)
  moreover from th have "\<not> list_ex is_exec
      (snd (performChecks ?w (Some ''postgresql://app@db/umami'') ''DATABASE_URL''))"
    by blast
  moreover from th s l have "exit_code (main both_urls (\<lambda>v. ?w)) = Some 1"
    by blast
  ultimately show ?thesis using m by blast
qed

text \<open>
  C10. Every command that a call of \<open>performChecks\<close> hands to \<open>execSync\<close> is the
  string \<open>npx prisma migrate deploy\<close>, whatever the URL, the label and the answers of
  the database; so the commands run for any two data sources are equal. A call whose
  checks all pass does run it.
\<close>

theorem migration_command_is_constant:
  "(ExecSync c \<in> set (snd (performChecks w dbUrl label))
      \<longrightarrow> c = ''npx prisma migrate deploy'')
   \<and> (ExecSync c \<in> set (snd (performChecks w dbUrl label))
       \<and> ExecSync c' \<in> set (snd (performChecks w' dbUrl' label'))
      \<longrightarrow> c = c')
   \<and> (connect_reply w = Returns ()
       \<and> version_reply w = Returns (versionString # rows)
       \<and> semver_valid (semver_coerce versionString) = Some v
       \<and> \<not> version_below v (family_minimum (getDatabaseType dbUrl))
       \<and> migrations_reply w = Returns []
       \<and> deploy_reply w = Returns out
      \<longrightarrow> filter is_exec (snd (performChecks w dbUrl label))
            = [ExecSync ''npx prisma migrate deploy''])"
proof -
  have a: "c = ''npx prisma migrate deploy''"
    if "ExecSync c \<in> set (snd (performChecks w dbUrl label))" for c w dbUrl label
    using performChecks_exec_command [OF that] by (simp add: migrate_command_def)
  have b: "filter is_exec (snd (performChecks w dbUrl label)) = [ExecSync ''npx prisma migrate deploy'']"
    if "connect_reply w = Returns ()"
      and "version_reply w = Returns (versionString # rows)"
      and "semver_valid (semver_coerce versionString) = Some v"
      and "\<not> version_below v (family_minimum (getDatabaseType dbUrl))"
      and "migrations_reply w = Returns []"
      and "deploy_reply w = Returns out"
    unfolding performChecks_healthy [OF that]
    by (simp add: migrate_command_def compatible_line_def)
  from a [of c w dbUrl label] a [of c' w' dbUrl' label'] b show ?thesis by blast
qed

theorem migration_command_is_constant_witness:
  "filter is_exec (snd (performChecks (database ''PostgreSQL 14.2'' [])
       (Some ''postgresql://app@db/umami'') ''DATABASE_URL''))
     = [ExecSync ''npx prisma migrate deploy'']
   \<and> filter is_exec (snd (performChecks (database ''8.0.36'' [])
       (Some ''mysql://admin@other/stats'') ''DIRECT_DATABASE_URL''))
     = [ExecSync ''npx prisma migrate deploy'']"
proof -
  have c: "connect_reply (database raw []) = Returns ()"
    and q: "version_reply (database raw []) = Returns (Some raw # [])"
    and m: "migrations_reply (database raw []) = Returns []"
    and d: "deploy_reply (database raw []) = Returns ''ok''" for raw
    by (simp_all add: database_def)
  have p1: "semver_valid (semver_coerce (Some ''PostgreSQL 14.2''))
      = Some \<lparr>major = 14, minor = 2, patch = 0\<rparr>"
    by (simp add: coerce_eval)
  have b1: "\<not> version_below \<lparr>major = 14, minor = 2, patch = 0\<rparr>
      (family_minimum (getDatabaseType (Some ''postgresql://app@db/umami'')))"
    by (simp add: url_eval family_minimum_def version_below_def)
  have p2: "semver_valid (semver_coerce (Some ''8.0.36''))
      = Some \<lparr>major = 8, minor = 0, patch = 36\<rparr>"
    by (simp add: coerce_eval)
  have b2: "\<not> version_below \<lparr>major = 8, minor = 0, patch = 36\<rparr>
      (family_minimum (getDatabaseType (Some ''mysql://admin@other/stats'')))"
    by (simp add: url_eval family_minimum_def version_below_def)
  from migration_command_is_constant [of _ "database ''PostgreSQL 14.2'' []"
      "Some ''postgresql://app@db/umami''" "''DATABASE_URL''" _ _ _ _
      "Some ''PostgreSQL 14.2''" "[]" "\<lparr>major = 14, minor = 2, patch = 0\<rparr>" "''ok''"]
    c q m d p1 b1
  have r1: "filter is_exec (snd (performChecks (database ''PostgreSQL 14.2'' [])
       (Some ''postgresql://app@db/umami'') ''DATABASE_URL''))
     = [ExecSync ''npx prisma migrate deploy'']"
    by blast
  from migration_command_is_constant [of _ "database ''8.0.36'' []"
      "Some ''mysql://admin@other/stats''" "''DIRECT_DATABASE_URL''" _ _ _ _
      "Some ''8.0.36''" "[]" "\<lparr>major = 8, minor = 0, patch = 36\<rparr>" "''ok''"]
    c q m d p2 b2
  have r2: "filter is_exec (snd (performChecks (database ''8.0.36'' [])
       (Some ''mysql://admin@other/stats'') ''DIRECT_DATABASE_URL''))
     = [ExecSync ''npx prisma migrate deploy'']"
    by blast
  from r1 r2 show ?thesis ..
qed

subsection \<open>Scoped connections\<close>

lemma scoped_line [simp]:
  "scoped c (success m # t) = scoped c t" "scoped c (error m # t) = scoped c t"
  by (simp_all add: success_def error_def)

lemma is_connect_line [simp]: "\<not> is_connect (success m)" "\<not> is_connect (error m)"
  by (simp_all add: success_def error_def)

lemma scoped_env_lines:
  "scoped c (map (env_line env) vs @ t) = scoped c t"
  by (induction vs) (simp_all add: env_line_def)

lemma check_each_scoped:
  "scoped None (snd (check_each env world vs) @ t) = scoped None t"
proof (induction vs arbitrary: t)
  case Nil
  then show ?case by simp
next
  case (Cons v vs)
  show ?case
  proof (cases "performChecks (world v) (env v) v")
    case (Pair r tr)
    then have tr: "scoped None (tr @ s) = scoped None s" for s
      using performChecks_scoped [of "world v" "env v" v s] by simp
    show ?thesis
    proof (cases r)
      case (Throws e)
      with Pair tr show ?thesis by simp
    next
      case (Returns u)
      with Pair tr Cons.IH show ?thesis
        by (cases "check_each env world vs") simp
    qed
  qed
qed

text \<open>
  C9. In every run the connections are scoped: a client is disconnected before the next
  one connects and before the process exits. Each call of \<open>performChecks\<close> connects
  first and disconnects last, whether its checks pass or one of them throws.
\<close>

theorem connections_are_scoped:
  "scoped None (main env world)
   \<and> (\<exists>mid. snd (performChecks w dbUrl label) = Connect dbUrl # mid @ [Disconnect dbUrl]
             \<and> list_all (body_event dbUrl) mid)"
proof -
  have "scoped None (main env world)"
  proof (cases "truthy (env ''SKIP_DB_CHECK'')")
    case True
    then show ?thesis by (simp add: main_def)
  next
    case False
    show ?thesis
    proof (cases "check_each env world DATABASE_URLS")
      case (Pair r t')
      have "scoped None (t' @ s) = scoped None s" for s
        using check_each_scoped [of env world DATABASE_URLS s] Pair by simp
      with False Pair show ?thesis
        by (cases r) (simp_all add: main_def checkEnv_eq scoped_env_lines)
    qed
  qed
  with performChecks_shape [of w dbUrl label] show ?thesis by blast
qed

subsection \<open>The environment check in a run\<close>

lemma env_line_is_error:
  "(env_line env v = error (name @ '' is not defined.'')) = (v = name \<and> \<not> truthy (env v))"
  by (auto simp: env_line_def success_def error_def)

lemma env_lines_no_connect:
  "filter is_connect (map (env_line env) vs) = []"
  by (induction vs) (simp_all add: env_line_def)

text \<open>
  C4. The environment check prints the line \<open>is not defined\<close> for a name exactly when
  the name is one of the required variables and is missing (unset or empty), and it
  succeeds exactly when none is missing. When one is missing, the run (unless skipped)
  consists of the lines of the check, the error and the exit with code 1: no connection
  is attempted.
\<close>

theorem checkEnv_reports_missing:
  "(error (name @ '' is not defined.'') \<in> set (snd (checkEnv env)))
      = (name \<in> set DATABASE_URLS \<and> \<not> truthy (env name))
   \<and> (fst (checkEnv env) = Returns ()) = (\<forall>v\<in>set DATABASE_URLS. truthy (env v))
   \<and> ((\<exists>v\<in>set DATABASE_URLS. \<not> truthy (env v)) \<and> \<not> truthy (env ''SKIP_DB_CHECK'')
       \<longrightarrow> main env world
             = snd (checkEnv env)
               @ [error ''One or more required database environment variables are missing.'',
                  ProcessExit 1]
           \<and> \<not> list_ex is_connect (main env world)
           \<and> exit_code (main env world) = Some 1)"
proof -
  have a: "(error (name @ '' is not defined.'') \<in> set (snd (checkEnv env)))
      = (name \<in> set DATABASE_URLS \<and> \<not> truthy (env name))"
  proof -
    have "(error (name @ '' is not defined.'') \<in> set (snd (checkEnv env)))
        = (\<exists>v\<in>set DATABASE_URLS. env_line env v = error (name @ '' is not defined.''))"
      by (force simp: checkEnv_eq)
    also have "\<dots> = (name \<in> set DATABASE_URLS \<and> \<not> truthy (env name))"
      by (auto simp: env_line_is_error)
    finally show ?thesis .
  qed
  have b: "(fst (checkEnv env) = Returns ()) = (\<forall>v\<in>set DATABASE_URLS. truthy (env v))"
    by (simp add: checkEnv_eq)
  have c: "main env world
             = snd (checkEnv env)
               @ [error ''One or more required database environment variables are missing.'',
                  ProcessExit 1]
           \<and> \<not> list_ex is_connect (main env world)
           \<and> exit_code (main env world) = Some 1"
    if "\<exists>v\<in>set DATABASE_URLS. \<not> truthy (env v)" and "\<not> truthy (env ''SKIP_DB_CHECK'')"
  proof -
    from that have m: "main env world
             = map (env_line env) DATABASE_URLS
               @ [error ''One or more required database environment variables are missing.'',
                  ProcessExit 1]"
      by (auto simp: main_def checkEnv_eq)
    have "filter is_connect (main env world) = []"
      unfolding m by (simp add: env_lines_no_connect)
    then have "\<not> list_ex is_connect (main env world)"
      by (simp add: list_ex_iff filter_empty_conv)
    moreover have "exit_code (main env world) = Some 1"
      unfolding m by (simp add: exit_code_def)
    ultimately show ?thesis using m by (simp add: checkEnv_eq)
  qed
  from a b c show ?thesis by blast
qed

theorem checkEnv_reports_missing_witness:
  "error ''DIRECT_DATABASE_URL is not defined.'' \<in> set (snd (checkEnv direct_url_empty))
   \<and> error ''DATABASE_URL is not defined.'' \<notin> set (snd (checkEnv direct_url_empty))
   \<and> fst (checkEnv direct_url_empty) \<noteq> Returns ()
   \<and> fst (checkEnv both_urls) = Returns ()
   \<and> main direct_url_empty (\<lambda>v. database ''PostgreSQL 14.2'' [])
       = [success ''DATABASE_URL is defined.'',
          error ''DIRECT_DATABASE_URL is not defined.'',
          error ''One or more required database environment variables are missing.'',
          ProcessExit 1]
   \<and> \<not> list_ex is_connect (main direct_url_empty (\<lambda>v. database ''PostgreSQL 14.2'' []))
   \<and> exit_code (main direct_url_empty (\<lambda>v. database ''PostgreSQL 14.2'' [])) = Some 1"
proof -
  let ?world = "\<lambda>v::string. database ''PostgreSQL 14.2'' []"
  have u: "truthy (direct_url_empty ''DATABASE_URL'')"
    and d: "\<not> truthy (direct_url_empty ''DIRECT_DATABASE_URL'')"
    and s: "\<not> truthy (direct_url_empty ''SKIP_DB_CHECK'')"
    by (simp_all add: direct_url_empty_def truthy_def)
  have b: "\<forall>v\<in>set DATABASE_URLS. truthy (both_urls v)"
    by (simp add: DATABASE_URLS_def both_urls_def truthy_def)
  have l: "''DIRECT_DATABASE_URL'' \<in> set DATABASE_URLS"
    by (simp add: DATABASE_URLS_def)
  have t: "snd (checkEnv direct_url_empty)
      = [success ''DATABASE_URL is defined.'', error ''DIRECT_DATABASE_URL is not defined.'']"
    using u d by (simp add: checkEnv_eq DATABASE_URLS_def env_line_def)
  note th1 = checkEnv_reports_missing [of "''DIRECT_DATABASE_URL''" direct_url_empty ?world]
  note th2 = checkEnv_reports_missing [of "''DATABASE_URL''" direct_url_empty ?world]
  note th3 = checkEnv_reports_missing [of "''DATABASE_URL''" both_urls ?world]
  from th1 d l have f1: "error ''DIRECT_DATABASE_URL is not defined.'' \<in> set (snd (checkEnv direct_url_empty))"
    by simp
  from th2 u have f2: "error ''DATABASE_URL is not defined.'' \<notin> set (snd (checkEnv direct_url_empty))"
    by simp
  from th1 d l have f3: "fst (checkEnv direct_url_empty) \<noteq> Returns ()"
    by blast
  from th3 b have f4: "fst (checkEnv both_urls) = Returns ()"
    by blast
  from th1 d l s have m: "main direct_url_empty ?world
       = snd (checkEnv direct_url_empty)
         @ [error ''One or more required database environment variables are missing.'', ProcessExit 1]
     \<and> \<not> list_ex is_connect (main direct_url_empty ?world)
     \<and> exit_code (main direct_url_empty ?world) = Some 1"
    by blast
  from m have m1: "main direct_url_empty ?world
       = [success ''DATABASE_URL is defined.'',
          error ''DIRECT_DATABASE_URL is not defined.'',
          error ''One or more required database environment variables are missing.'',
          ProcessExit 1]"
    unfolding t by simp
  from f1 f2 f3 f4 m1 m show ?thesis by blast
qed

subsection \<open>The run as a whole\<close>




subsection \<open>When a call returns\<close>











end
